theory Spec2Isabelle
  imports Complex_Main
begin

section \<open>The Jacobi solver of toolkits/linear\_solvers/jacobi.cpp\<close>

text \<open>
  The solver is a vertex program: one vertex per equation, one directed edge per
  off-diagonal coefficient. The embedding follows jacobi.cpp function by function.

  Numbers. The source computes in \<^verbatim>\<open>real_type\<close>, a floating-point type. It is embedded
  as \<^typ>\<open>real\<close>: every statement below is about exact arithmetic, and none is a statement
  about rounding, overflow to infinity or NaN.

  Assertions are taken as enabled (the source writes \<^verbatim>\<open>assert(A_ii != 0)\<close>): a failed
  assertion aborts the process, which the embedding returns as an error value.
\<close>

subsection \<open>Scalars and the diagnostic stream\<close>

text \<open>
  Modelled from the spec: \<^verbatim>\<open>real_type\<close> is declared in ../shared/types.hpp, which is
  missing. \<^verbatim>\<open>std::numeric_limits<real_type>::max()\<close> is "the maximal
  representable value"; the value written is the largest finite IEEE double. The proofs
  use only that it is positive.
\<close>

definition real_type_max :: real where
  "real_type_max = (2 - 1 / 2 ^ 52) * 2 ^ 1023"

text \<open>What the program writes to \<^verbatim>\<open>std::cout\<close>, one constructor per output statement.\<close>

datatype cout_line =
    Hello
  | Entering_node nat real real
  | X_i_line nat real
  | Real_Norm_line real
  | Relative_Norm_line real

datatype error = Assertion_failed | Global_not_found

subsection \<open>Graph model: \<^verbatim>\<open>vertex_data\<close> and \<^verbatim>\<open>edge_data\<close>\<close>

record vertex_data =
  y :: real
  Aii :: real
  pred_x :: real
  real_x :: real
  prev_x :: real

text \<open>
  The constructor \<^verbatim>\<open>vertex_data()\<close>: the member initialisers, then \<^verbatim>\<open>"hello"\<close> on the
  diagnostic stream when the global \<^verbatim>\<open>debug\<close> is set.
\<close>

definition vertex_data_ctor :: "bool \<Rightarrow> cout_line list \<Rightarrow> vertex_data \<times> cout_line list" where
  "vertex_data_ctor debug out =
     (\<lparr>y = 0, Aii = 1, pred_x = 0, real_x = 0, prev_x = real_type_max\<rparr>,
      if debug then out @ [Hello] else out)"

definition add_self_edge :: "real \<Rightarrow> vertex_data \<Rightarrow> vertex_data" where
  "add_self_edge val vd = vd\<lparr>Aii := val\<rparr>"

definition set_val :: "real \<Rightarrow> vertex_data \<Rightarrow> vertex_data" where
  "set_val val vd = vd\<lparr>y := val\<rparr>"

definition get_output :: "vertex_data \<Rightarrow> real" where
  "get_output vd = pred_x vd"

record edge_data =
  weight :: real

definition edge_data_ctor :: "real \<Rightarrow> edge_data" where
  "edge_data_ctor w = \<lparr>weight = w\<rparr>"

subsection \<open>The engine's contexts\<close>

text \<open>
  Modelled from the spec: graphlab.hpp (the graph, the contexts and the scheduler of the
  graph-parallel runtime) is missing. The contexts below hold
  exactly what jacobi.cpp asks of them: the global table behind \<^verbatim>\<open>set_global\<close> and
  \<^verbatim>\<open>get_global\<close>, the termination signal behind \<^verbatim>\<open>terminate()\<close>, the vertex and edge
  stores behind \<^verbatim>\<open>vertex_data()\<close>, \<^verbatim>\<open>const_vertex_data(v)\<close> and \<^verbatim>\<open>edge_data(e)\<close>, the
  topology behind \<^verbatim>\<open>out_edge_ids()\<close> and \<^verbatim>\<open>target(e)\<close>, and the tasks handed to
  \<^verbatim>\<open>schedule(v, f)\<close> in the order of the calls. Vertices and edges are named by their
  numeric ids. \<^verbatim>\<open>std::cout\<close> is carried in the context as well.
\<close>

datatype update_functor = Jacobi_update_functor

record iglobal_context_type =
  globals :: "string \<rightharpoonup> real"
  terminated :: bool
  cout :: "cout_line list"

record icontext_type = iglobal_context_type +
  vertex_id :: nat
  g_vertex_data :: "nat \<Rightarrow> vertex_data"
  g_edge_data :: "nat \<Rightarrow> edge_data"
  g_target :: "nat \<Rightarrow> nat"
  g_out_edge_ids :: "nat \<Rightarrow> nat list"
  scheduled :: "(nat \<times> update_functor) list"

definition set_global ::
  "string \<Rightarrow> real \<Rightarrow> 'a iglobal_context_type_scheme \<Rightarrow> 'a iglobal_context_type_scheme" where
  "set_global key val context = context\<lparr>globals := (globals context)(key \<mapsto> val)\<rparr>"

definition get_global :: "string \<Rightarrow> 'a iglobal_context_type_scheme \<Rightarrow> real option" where
  "get_global key context = globals context key"

definition terminate :: "'a iglobal_context_type_scheme \<Rightarrow> 'a iglobal_context_type_scheme" where
  "terminate context = context\<lparr>terminated := True\<rparr>"

definition print_line ::
  "cout_line \<Rightarrow> 'a iglobal_context_type_scheme \<Rightarrow> 'a iglobal_context_type_scheme" where
  "print_line l context = context\<lparr>cout := cout context @ [l]\<rparr>"

definition schedule :: "nat \<Rightarrow> update_functor \<Rightarrow> icontext_type \<Rightarrow> icontext_type" where
  "schedule v f context = context\<lparr>scheduled := scheduled context @ [(v, f)]\<rparr>"

text \<open>A write through the reference \<^verbatim>\<open>vertex_data& vdata = context.vertex_data()\<close>.\<close>

definition put_vertex_data :: "vertex_data \<Rightarrow> icontext_type \<Rightarrow> icontext_type" where
  "put_vertex_data vd context =
     context\<lparr>g_vertex_data := (g_vertex_data context)(vertex_id context := vd)\<rparr>"

definition cur_vertex_data :: "icontext_type \<Rightarrow> vertex_data" where
  "cur_vertex_data context = g_vertex_data context (vertex_id context)"

subsection \<open>\<^verbatim>\<open>jacobi_update::operator()\<close>\<close>

text \<open>
  The loop over \<^verbatim>\<open>outedgeid\<close>. \<^verbatim>\<open>x_i\<close> is a reference to the \<^verbatim>\<open>pred_x\<close> of the vertex being
  updated, so every iteration writes to the vertex store, and \<^verbatim>\<open>other.pred_x\<close> is read from
  the store as it is at that iteration (for an edge from the vertex to itself it reads the
  partly accumulated value).
\<close>

fun out_edge_loop :: "nat list \<Rightarrow> icontext_type \<Rightarrow> icontext_type" where
  "out_edge_loop [] context = context"
| "out_edge_loop (e # es) context =
     (let out_edge = g_edge_data context e;
          other = g_vertex_data context (g_target context e);
          vdata = cur_vertex_data context
      in out_edge_loop es
           (put_vertex_data (vdata\<lparr>pred_x := pred_x vdata - weight out_edge * pred_x other\<rparr>) context))"

definition jacobi_update :: "bool \<Rightarrow> icontext_type \<Rightarrow> error + icontext_type" where
  "jacobi_update debug context =
     (let outedgeid = g_out_edge_ids context (vertex_id context);
          c1 = put_vertex_data
                 ((cur_vertex_data context)\<lparr>prev_x := pred_x (cur_vertex_data context)\<rparr>) context
      in if Aii (cur_vertex_data c1) = 0 then Inl Assertion_failed
         else
           let c2 = (if debug
                     then print_line (Entering_node (vertex_id c1) (Aii (cur_vertex_data c1))
                                        (prev_x (cur_vertex_data c1))) c1
                     else c1);
               c3 = out_edge_loop outedgeid c2;
               c4 = put_vertex_data
                      ((cur_vertex_data c3)\<lparr>pred_x := pred_x (cur_vertex_data c3) / Aii (cur_vertex_data c3)\<rparr>) c3;
               c5 = (if debug
                     then print_line (X_i_line (vertex_id c4) (pred_x (cur_vertex_data c4))) c4
                     else c4)
           in Inr (schedule (vertex_id c5) Jacobi_update_functor c5))"

subsection \<open>\<^verbatim>\<open>accumulator\<close>\<close>

record accumulator =
  real_norm :: real
  relative_norm :: real

definition accumulator_ctor :: accumulator where
  "accumulator_ctor = \<lparr>real_norm = real_type_max, relative_norm = real_type_max\<rparr>"

text \<open>\<^verbatim>\<open>accumulator::operator()\<close>: the contribution of the context's vertex.\<close>

definition accumulator_apply :: "accumulator \<Rightarrow> icontext_type \<Rightarrow> accumulator" where
  "accumulator_apply acc context =
     (let vdata = cur_vertex_data context
      in \<lparr>real_norm = real_norm acc + (pred_x vdata - real_x vdata) ^ 2,
          relative_norm = relative_norm acc + (pred_x vdata - prev_x vdata) ^ 2\<rparr>)"

text \<open>\<^verbatim>\<open>accumulator::operator+=\<close>.\<close>

definition accumulator_plus_eq :: "accumulator \<Rightarrow> accumulator \<Rightarrow> accumulator" where
  "accumulator_plus_eq acc other =
     \<lparr>real_norm = real_norm acc + real_norm other,
      relative_norm = relative_norm acc + relative_norm other\<rparr>"

text \<open>
  \<^verbatim>\<open>accumulator::finalize\<close>. A key that the global table does not hold is an error of the
  engine's \<^verbatim>\<open>get_global\<close>.
\<close>

definition finalize ::
  "accumulator \<Rightarrow> 'a iglobal_context_type_scheme \<Rightarrow> error + 'a iglobal_context_type_scheme" where
  "finalize acc context =
     (let c1 = print_line (Relative_Norm_line (relative_norm acc))
                 (print_line (Real_Norm_line (real_norm acc)) context);
          c2 = set_global ''REAL_NORM'' (real_norm acc) c1;
          c3 = set_global ''RELATIVE_NORM'' (relative_norm acc) c2
      in case get_global ''THRESHOLD'' c3 of
           None \<Rightarrow> Inl Global_not_found
         | Some threshold \<Rightarrow> Inr (if real_norm acc < threshold then terminate c3 else c3))"


subsection \<open>The engine's passes over the vertices\<close>

text \<open>
  Modelled from the spec: the engine that dispatches the functors is missing. An
  accumulation pass is "a reduction over the full vertex set, structured as per-vertex contribution, combine, finalize": each group of vertices is
  folded by \<^verbatim>\<open>operator()\<close> into an accumulator of its own, made by the constructor
  \<^verbatim>\<open>accumulator()\<close>, and the partial states are combined by \<^verbatim>\<open>operator+=\<close>. A single pass
  over all vertices is the pass with one group.
\<close>

definition fold_vertices :: "icontext_type \<Rightarrow> nat list \<Rightarrow> accumulator" where
  "fold_vertices context vs =
     foldl (\<lambda>acc v. accumulator_apply acc (context\<lparr>vertex_id := v\<rparr>)) accumulator_ctor vs"

fun accumulation_pass :: "icontext_type \<Rightarrow> nat list list \<Rightarrow> accumulator" where
  "accumulation_pass context [] = accumulator_ctor"
| "accumulation_pass context (g # gs) =
     foldl accumulator_plus_eq (fold_vertices context g) (map (fold_vertices context) gs)"

text \<open>
  Modelled from the spec: the engine's dispatch loop is missing. A sweep is "one
  dispatch-and-complete cycle of the Update Functor over all vertices"; here the invocations run one after the other, in the order
  of the list, and an aborted invocation aborts the sweep.
\<close>

fun sweep :: "bool \<Rightarrow> nat list \<Rightarrow> icontext_type \<Rightarrow> error + icontext_type" where
  "sweep debug [] context = Inr context"
| "sweep debug (v # vs) context =
     (case jacobi_update debug (context\<lparr>vertex_id := v\<rparr>) of
        Inl e \<Rightarrow> Inl e
      | Inr c' \<Rightarrow> sweep debug vs c')"

subsection \<open>What the specification asks for\<close>

text \<open>The Jacobi step in the spec's words: \<open>(y\<^sub>i - \<Sum> A\<^sub>i\<^sub>j x\<^sub>j) / A\<^sub>i\<^sub>i\<close> over the out-edges.\<close>

definition spec_jacobi_value :: "icontext_type \<Rightarrow> real" where
  "spec_jacobi_value context =
     (y (cur_vertex_data context)
        - (\<Sum>e\<leftarrow>g_out_edge_ids context (vertex_id context).
             weight (g_edge_data context e) * pred_x (g_vertex_data context (g_target context e))))
     / Aii (cur_vertex_data context)"

text \<open>The norms in the spec's words: plain sums over the vertices.\<close>

definition spec_absolute_error_norm :: "icontext_type \<Rightarrow> nat list \<Rightarrow> real" where
  "spec_absolute_error_norm context vs =
     (\<Sum>v\<leftarrow>vs. (pred_x (g_vertex_data context v) - real_x (g_vertex_data context v)) ^ 2)"

definition spec_relative_error_norm :: "icontext_type \<Rightarrow> nat list \<Rightarrow> real" where
  "spec_relative_error_norm context vs =
     (\<Sum>v\<leftarrow>vs. (pred_x (g_vertex_data context v) - prev_x (g_vertex_data context v)) ^ 2)"

subsection \<open>Loading\<close>







subsection \<open>Concrete systems\<close>

text \<open>A graph of default-constructed vertices without edges, before anything is loaded.\<close>

definition blank_context :: icontext_type where
  "blank_context =
     \<lparr>globals = Map.empty, terminated = False, cout = [],
      vertex_id = 0,
      g_vertex_data = (\<lambda>_. fst (vertex_data_ctor False [])),
      g_edge_data = (\<lambda>_. edge_data_ctor 0),
      g_target = (\<lambda>_. 0),
      g_out_edge_ids = (\<lambda>_. []),
      scheduled = []\<rparr>"

text \<open>
  Two equations, \<open>2 x\<^sub>0 - x\<^sub>1 = 3\<close> and \<open>4 x\<^sub>1 = 5\<close>: vertex 0 has one out-edge, to
  vertex 1, of weight \<open>-1\<close>. Vertex 0 is as loaded; vertex 1 has been updated before.
\<close>

definition coupled_context :: icontext_type where
  "coupled_context =
     blank_context
       \<lparr>g_vertex_data :=
          (g_vertex_data blank_context)
            (0 := add_self_edge 2 (set_val 3 (fst (vertex_data_ctor False []))),
             1 := \<lparr>y = 5, Aii = 4, pred_x = 1, real_x = 0, prev_x = 0\<rparr>),
        g_edge_data := (g_edge_data blank_context)(0 := edge_data_ctor (- 1)),
        g_target := (g_target blank_context)(0 := 1),
        g_out_edge_ids := (g_out_edge_ids blank_context)(0 := [0])\<rparr>"

text \<open>A diagonal system, \<open>2 x\<^sub>0 = 2\<close> and \<open>3 x\<^sub>1 = 6\<close>, as loaded: no edges.\<close>

definition diagonal_context :: icontext_type where
  "diagonal_context =
     blank_context
       \<lparr>g_vertex_data :=
          (g_vertex_data blank_context)
            (0 := add_self_edge 2 (set_val 2 (fst (vertex_data_ctor False []))),
             1 := add_self_edge 3 (set_val 6 (fst (vertex_data_ctor False []))))\<rparr>"

text \<open>A run configured with the default threshold \<open>10\<^sup>-\<^sup>5\<close>.\<close>

definition configured_context :: icontext_type where
  "configured_context = blank_context\<lparr>globals := [''THRESHOLD'' \<mapsto> 1 / 100000]\<rparr>"



section \<open>Properties\<close>

subsection \<open>Stores and the loop\<close>

lemmas model_defs =
  blank_context_def coupled_context_def diagonal_context_def configured_context_def
  vertex_data_ctor_def edge_data_ctor_def add_self_edge_def set_val_def
  put_vertex_data_def cur_vertex_data_def print_line_def schedule_def

lemma real_type_max_pos: "0 < real_type_max"
  by (simp add: real_type_max_def)

lemma put_vertex_data_simps:
  "vertex_id (put_vertex_data vd c) = vertex_id c"
  "g_edge_data (put_vertex_data vd c) = g_edge_data c"
  "g_target (put_vertex_data vd c) = g_target c"
  "g_out_edge_ids (put_vertex_data vd c) = g_out_edge_ids c"
  "scheduled (put_vertex_data vd c) = scheduled c"
  "cout (put_vertex_data vd c) = cout c"
  "globals (put_vertex_data vd c) = globals c"
  "terminated (put_vertex_data vd c) = terminated c"
  "g_vertex_data (put_vertex_data vd c) = (g_vertex_data c)(vertex_id c := vd)"
  "cur_vertex_data (put_vertex_data vd c) = vd"
  by (simp_all add: put_vertex_data_def cur_vertex_data_def)

lemma print_line_simps:
  "vertex_id (print_line l c) = vertex_id c"
  "g_edge_data (print_line l c) = g_edge_data c"
  "g_target (print_line l c) = g_target c"
  "g_out_edge_ids (print_line l c) = g_out_edge_ids c"
  "scheduled (print_line l c) = scheduled c"
  "cout (print_line l c) = cout c @ [l]"
  "globals (print_line l c) = globals c"
  "terminated (print_line l c) = terminated c"
  "g_vertex_data (print_line l c) = g_vertex_data c"
  "cur_vertex_data (print_line l c) = cur_vertex_data c"
  by (simp_all add: print_line_def cur_vertex_data_def)

lemma schedule_simps:
  "vertex_id (schedule v f c) = vertex_id c"
  "g_edge_data (schedule v f c) = g_edge_data c"
  "g_target (schedule v f c) = g_target c"
  "g_out_edge_ids (schedule v f c) = g_out_edge_ids c"
  "scheduled (schedule v f c) = scheduled c @ [(v, f)]"
  "cout (schedule v f c) = cout c"
  "globals (schedule v f c) = globals c"
  "terminated (schedule v f c) = terminated c"
  "g_vertex_data (schedule v f c) = g_vertex_data c"
  "cur_vertex_data (schedule v f c) = cur_vertex_data c"
  by (simp_all add: schedule_def cur_vertex_data_def)

text \<open>The loop touches the vertex store only, and there only the current vertex.\<close>

lemma out_edge_loop_frame:
  "vertex_id (out_edge_loop es c) = vertex_id c"
  "g_edge_data (out_edge_loop es c) = g_edge_data c"
  "g_target (out_edge_loop es c) = g_target c"
  "g_out_edge_ids (out_edge_loop es c) = g_out_edge_ids c"
  "scheduled (out_edge_loop es c) = scheduled c"
  "cout (out_edge_loop es c) = cout c"
  "globals (out_edge_loop es c) = globals c"
  "terminated (out_edge_loop es c) = terminated c"
  by (induction es arbitrary: c; simp add: Let_def put_vertex_data_simps)+

lemma out_edge_loop_others:
  "u \<noteq> vertex_id c \<Longrightarrow> g_vertex_data (out_edge_loop es c) u = g_vertex_data c u"
  by (induction es arbitrary: c) (simp_all add: Let_def put_vertex_data_simps out_edge_loop_frame)

lemma out_edge_loop_own_fields:
  "y (cur_vertex_data (out_edge_loop es c)) = y (cur_vertex_data c)"
  "Aii (cur_vertex_data (out_edge_loop es c)) = Aii (cur_vertex_data c)"
  "real_x (cur_vertex_data (out_edge_loop es c)) = real_x (cur_vertex_data c)"
  "prev_x (cur_vertex_data (out_edge_loop es c)) = prev_x (cur_vertex_data c)"
  by (induction es arbitrary: c; simp add: Let_def put_vertex_data_simps)+

lemma put_vertex_data_print_line:
  "put_vertex_data vd (print_line l c) = print_line l (put_vertex_data vd c)"
  by (simp add: put_vertex_data_def print_line_def)

lemma out_edge_loop_print_line:
  "out_edge_loop es (print_line l c) = print_line l (out_edge_loop es c)"
  by (induction es arbitrary: c)
    (simp_all add: Let_def print_line_simps put_vertex_data_print_line)

lemma schedule_print_line:
  "schedule v f (print_line l c) = print_line l (schedule v f c)"
  by (simp add: schedule_def print_line_def)

lemma print_line_erase: "(print_line l c)\<lparr>cout := k\<rparr> = c\<lparr>cout := k\<rparr>"
  by (simp add: print_line_def)

text \<open>
  Without an edge from the vertex to itself, the loop subtracts the weighted estimates
  of the targets from the estimate the vertex had when the loop began.
\<close>

lemma out_edge_loop_pred_x:
  "vertex_id c \<notin> g_target c ` set es \<Longrightarrow>
   pred_x (cur_vertex_data (out_edge_loop es c)) =
     pred_x (cur_vertex_data c)
       - (\<Sum>e\<leftarrow>es. weight (g_edge_data c e) * pred_x (g_vertex_data c (g_target c e)))"
proof (induction es arbitrary: c)
  case Nil
  then show ?case by simp
next
  case (Cons e es)
  let ?vd = "(cur_vertex_data c)\<lparr>pred_x := pred_x (cur_vertex_data c)
      - weight (g_edge_data c e) * pred_x (g_vertex_data c (g_target c e))\<rparr>"
  let ?c = "put_vertex_data ?vd c"
  from Cons.prems have notin: "vertex_id c \<notin> g_target c ` set es"
    by simp
  have same: "map (\<lambda>e. weight (g_edge_data ?c e) * pred_x (g_vertex_data ?c (g_target ?c e))) es
      = map (\<lambda>e. weight (g_edge_data c e) * pred_x (g_vertex_data c (g_target c e))) es"
  proof (rule map_cong)
    fix x assume "x \<in> set es"
    with notin have "g_target c x \<noteq> vertex_id c"
      by (metis imageI)
    then show "weight (g_edge_data ?c x) * pred_x (g_vertex_data ?c (g_target ?c x))
        = weight (g_edge_data c x) * pred_x (g_vertex_data c (g_target c x))"
      by (simp add: put_vertex_data_simps)
  qed simp
  have "pred_x (cur_vertex_data (out_edge_loop es ?c)) =
      pred_x ?vd - (\<Sum>e\<leftarrow>es. weight (g_edge_data ?c e) * pred_x (g_vertex_data ?c (g_target ?c e)))"
    using Cons.IH [of ?c] notin by (simp add: put_vertex_data_simps)
  then show ?case
    by (simp add: Let_def same)
qed

subsection \<open>The update functor\<close>

lemma jacobi_update_returns:
  "Aii (cur_vertex_data context) \<noteq> 0 \<Longrightarrow> \<exists>c'. jacobi_update debug context = Inr c'"
  by (simp add: jacobi_update_def Let_def put_vertex_data_simps)


lemma jacobi_update_Inr:
  assumes "jacobi_update debug context = Inr c'"
  shows "vertex_id c' = vertex_id context"
    and "g_edge_data c' = g_edge_data context"
    and "g_target c' = g_target context"
    and "g_out_edge_ids c' = g_out_edge_ids context"
    and "globals c' = globals context"
    and "terminated c' = terminated context"
    and "scheduled c' = scheduled context @ [(vertex_id context, Jacobi_update_functor)]"
    and "u \<noteq> vertex_id context \<Longrightarrow> g_vertex_data c' u = g_vertex_data context u"
    and "y (cur_vertex_data c') = y (cur_vertex_data context)"
    and "Aii (cur_vertex_data c') = Aii (cur_vertex_data context)"
    and "real_x (cur_vertex_data c') = real_x (cur_vertex_data context)"
    and "prev_x (cur_vertex_data c') = pred_x (cur_vertex_data context)"
  using assms
  by (auto simp: jacobi_update_def Let_def put_vertex_data_simps print_line_simps schedule_simps
      out_edge_loop_frame out_edge_loop_others out_edge_loop_own_fields split: if_splits)

text \<open>
  What the update stores as the new estimate: the accumulation starts from the vertex's
  own estimate, since \<^verbatim>\<open>x_i\<close> is bound to \<^verbatim>\<open>vdata.pred_x\<close> and is never assigned \<^verbatim>\<open>vdata.y\<close>.
\<close>

lemma jacobi_update_pred_x:
  assumes "jacobi_update debug context = Inr c'"
    and "vertex_id context \<notin> g_target context ` set (g_out_edge_ids context (vertex_id context))"
  shows "pred_x (cur_vertex_data c') =
     (pred_x (cur_vertex_data context)
        - (\<Sum>e\<leftarrow>g_out_edge_ids context (vertex_id context).
             weight (g_edge_data context e) * pred_x (g_vertex_data context (g_target context e))))
     / Aii (cur_vertex_data context)"
proof -
  let ?c1 = "put_vertex_data
      ((cur_vertex_data context)\<lparr>prev_x := pred_x (cur_vertex_data context)\<rparr>) context"
  let ?es = "g_out_edge_ids context (vertex_id context)"
  have targets: "\<And>e. e \<in> set ?es \<Longrightarrow> g_target context e \<noteq> vertex_id context"
    using assms(2) by (metis imageI)
  have notin: "vertex_id ?c1 \<notin> g_target ?c1 ` set ?es"
    using assms(2) by (simp add: put_vertex_data_simps)
  have sums: "map (\<lambda>e. weight (g_edge_data ?c1 e) * pred_x (g_vertex_data ?c1 (g_target ?c1 e))) ?es
      = map (\<lambda>e. weight (g_edge_data context e) * pred_x (g_vertex_data context (g_target context e))) ?es"
    by (rule map_cong) (simp_all add: put_vertex_data_simps targets)
  have loop: "pred_x (cur_vertex_data (out_edge_loop ?es ?c1)) =
      pred_x (cur_vertex_data context)
        - (\<Sum>e\<leftarrow>?es. weight (g_edge_data context e) * pred_x (g_vertex_data context (g_target context e)))"
  proof -
    have "pred_x (cur_vertex_data (out_edge_loop ?es ?c1)) =
        pred_x (cur_vertex_data ?c1)
          - (\<Sum>e\<leftarrow>?es. weight (g_edge_data ?c1 e) * pred_x (g_vertex_data ?c1 (g_target ?c1 e)))"
      by (rule out_edge_loop_pred_x [OF notin])
    also have "\<dots> = pred_x (cur_vertex_data ?c1)
          - (\<Sum>e\<leftarrow>?es. weight (g_edge_data context e) * pred_x (g_vertex_data context (g_target context e)))"
      unfolding sums ..
    finally show ?thesis
      by (simp add: put_vertex_data_simps)
  qed
  show ?thesis
    using assms(1) loop
    by (auto simp: jacobi_update_def Let_def put_vertex_data_simps print_line_simps schedule_simps
        out_edge_loop_own_fields out_edge_loop_print_line split: if_splits)
qed


text \<open>
  Claim C1. Every invocation on a vertex with a nonzero diagonal is to store
  \<open>(y\<^sub>i - \<Sum> A\<^sub>i\<^sub>j x\<^sub>j) / A\<^sub>i\<^sub>i\<close> as the new estimate. On \<open>coupled_context\<close> (vertex 0 with
  \<open>y = 3\<close>, diagonal 2 and estimate 0; one out-edge of weight \<open>-1\<close> to a vertex whose
  estimate is 1) that value is 2, and the invocation stores \<open>1/2\<close>, which is
  \<open>(0 - (-1) \<cdot> 1) / 2\<close>: the right-hand side \<open>y\<close> is never read, the sum is subtracted from
  the old estimate.
\<close>

theorem jacobi_update_ignores_rhs:
  "map_sum id (\<lambda>c. pred_x (g_vertex_data c 0)) (jacobi_update False coupled_context) = Inr (1 / 2)
   \<and> spec_jacobi_value coupled_context = 2"
  by (simp add: model_defs jacobi_update_def spec_jacobi_value_def Let_def)

text \<open>
  Claim C7. An invocation on a vertex \<open>v\<close> with a nonzero diagonal returns, and it leaves
  every other vertex's record, the fields \<open>y\<close>, \<open>Aii\<close> and \<open>real_x\<close> of \<open>v\<close>, every edge's data
  and the topology as they were: only \<open>pred_x\<close> and \<open>prev_x\<close> of \<open>v\<close> can differ.
\<close>

theorem jacobi_update_frame:
  assumes "Aii (g_vertex_data context (vertex_id context)) \<noteq> 0"
  shows "\<exists>c'. jacobi_update debug context = Inr c' \<and>
     (\<forall>u. u \<noteq> vertex_id context \<longrightarrow> g_vertex_data c' u = g_vertex_data context u) \<and>
     y (g_vertex_data c' (vertex_id context)) = y (g_vertex_data context (vertex_id context)) \<and>
     Aii (g_vertex_data c' (vertex_id context)) = Aii (g_vertex_data context (vertex_id context)) \<and>
     real_x (g_vertex_data c' (vertex_id context)) = real_x (g_vertex_data context (vertex_id context)) \<and>
     g_edge_data c' = g_edge_data context \<and>
     g_target c' = g_target context \<and>
     g_out_edge_ids c' = g_out_edge_ids context"
proof -
  from assms obtain c' where run: "jacobi_update debug context = Inr c'"
    using jacobi_update_returns [of "context" debug] by (auto simp: cur_vertex_data_def)
  note facts = jacobi_update_Inr [OF run]
  have "\<forall>u. u \<noteq> vertex_id context \<longrightarrow> g_vertex_data c' u = g_vertex_data context u"
    using facts(8) by blast
  moreover have "y (g_vertex_data c' (vertex_id context)) = y (g_vertex_data context (vertex_id context))"
    using facts(9) by (simp add: cur_vertex_data_def facts(1))
  moreover have "Aii (g_vertex_data c' (vertex_id context)) = Aii (g_vertex_data context (vertex_id context))"
    using facts(10) by (simp add: cur_vertex_data_def facts(1))
  moreover have "real_x (g_vertex_data c' (vertex_id context)) = real_x (g_vertex_data context (vertex_id context))"
    using facts(11) by (simp add: cur_vertex_data_def facts(1))
  ultimately show ?thesis
    using run facts(2,3,4) by blast
qed

theorem jacobi_update_frame_witness:
  "Aii (g_vertex_data coupled_context (vertex_id coupled_context)) \<noteq> 0 \<and>
   (\<exists>c'. jacobi_update True coupled_context = Inr c' \<and>
      g_vertex_data c' 1 = \<lparr>y = 5, Aii = 4, pred_x = 1, real_x = 0, prev_x = 0\<rparr> \<and>
      y (g_vertex_data c' 0) = 3 \<and> Aii (g_vertex_data c' 0) = 2 \<and>
      weight (g_edge_data c' 0) = - 1)"
proof -
  have nz: "Aii (g_vertex_data coupled_context (vertex_id coupled_context)) \<noteq> 0"
    by (simp add: model_defs)
  from jacobi_update_frame [OF nz, of True] obtain c' where
    run: "jacobi_update True coupled_context = Inr c'" and
    others: "\<forall>u. u \<noteq> vertex_id coupled_context \<longrightarrow> g_vertex_data c' u = g_vertex_data coupled_context u" and
    own: "y (g_vertex_data c' (vertex_id coupled_context)) = y (g_vertex_data coupled_context (vertex_id coupled_context))"
      "Aii (g_vertex_data c' (vertex_id coupled_context)) = Aii (g_vertex_data coupled_context (vertex_id coupled_context))" and
    edges: "g_edge_data c' = g_edge_data coupled_context"
    by blast
  have v: "vertex_id coupled_context = 0"
    by (simp add: model_defs)
  have "g_vertex_data c' 1 = \<lparr>y = 5, Aii = 4, pred_x = 1, real_x = 0, prev_x = 0\<rparr>"
    using others v by (simp add: model_defs)
  moreover have "y (g_vertex_data c' 0) = 3" "Aii (g_vertex_data c' 0) = 2"
    using own v by (simp_all add: model_defs)
  moreover have "weight (g_edge_data c' 0) = - 1"
    using edges by (simp add: model_defs)
  ultimately show ?thesis
    using nz run by blast
qed

text \<open>
  Claim C8. An invocation on a vertex \<open>v\<close> with a nonzero diagonal returns; afterwards
  \<open>prev_x\<close> of \<open>v\<close> is the \<open>pred_x\<close> that \<open>v\<close> had before the invocation, and the task
  \<open>(v, jacobi_update)\<close> has been handed to the scheduler, after the tasks already there.
\<close>

theorem jacobi_update_prev_x_and_reschedule:
  assumes "Aii (g_vertex_data context (vertex_id context)) \<noteq> 0"
  shows "\<exists>c'. jacobi_update debug context = Inr c' \<and>
     prev_x (g_vertex_data c' (vertex_id context)) = pred_x (g_vertex_data context (vertex_id context)) \<and>
     scheduled c' = scheduled context @ [(vertex_id context, Jacobi_update_functor)] \<and>
     (vertex_id context, Jacobi_update_functor) \<in> set (scheduled c')"
proof -
  from assms obtain c' where run: "jacobi_update debug context = Inr c'"
    using jacobi_update_returns [of "context" debug] by (auto simp: cur_vertex_data_def)
  note facts = jacobi_update_Inr [OF run]
  have "prev_x (g_vertex_data c' (vertex_id context)) = pred_x (g_vertex_data context (vertex_id context))"
    using facts(12) by (simp add: cur_vertex_data_def facts(1))
  then show ?thesis
    using run facts(7) by simp
qed

theorem jacobi_update_prev_x_and_reschedule_witness:
  "Aii (g_vertex_data coupled_context 1) \<noteq> 0 \<and>
   (\<exists>c'. jacobi_update False (coupled_context\<lparr>vertex_id := 1\<rparr>) = Inr c' \<and>
      prev_x (g_vertex_data c' 1) = 1 \<and> scheduled c' = [(1, Jacobi_update_functor)])"
proof -
  let ?c = "coupled_context\<lparr>vertex_id := 1\<rparr>"
  have nz: "Aii (g_vertex_data ?c (vertex_id ?c)) \<noteq> 0"
    by (simp add: model_defs)
  from jacobi_update_prev_x_and_reschedule [OF nz, of False] obtain c' where
    "jacobi_update False ?c = Inr c'"
    "prev_x (g_vertex_data c' (vertex_id ?c)) = pred_x (g_vertex_data ?c (vertex_id ?c))"
    "scheduled c' = scheduled ?c @ [(vertex_id ?c, Jacobi_update_functor)]"
    by blast
  then have "jacobi_update False ?c = Inr c' \<and> prev_x (g_vertex_data c' 1) = 1 \<and>
      scheduled c' = [(1, Jacobi_update_functor)]"
    by (simp add: model_defs)
  then show ?thesis
    using nz by auto
qed

text \<open>
  Claim C9. The flag \<open>debug\<close> reaches the diagnostic stream only. With the stream left
  out, an invocation gives the same outcome (the same abort, or the same context: vertex
  store, edges, scheduler, globals) for \<open>debug\<close> set and unset, in particular the same
  \<open>pred_x\<close> and \<open>prev_x\<close> of the vertex; the constructor builds the same vertex.
\<close>

theorem debug_flag_noninterference:
  "map_sum id (\<lambda>c. c\<lparr>cout := []\<rparr>) (jacobi_update True context)
     = map_sum id (\<lambda>c. c\<lparr>cout := []\<rparr>) (jacobi_update False context)
   \<and> map_sum id (\<lambda>c. (pred_x (cur_vertex_data c), prev_x (cur_vertex_data c))) (jacobi_update True context)
     = map_sum id (\<lambda>c. (pred_x (cur_vertex_data c), prev_x (cur_vertex_data c))) (jacobi_update False context)
   \<and> fst (vertex_data_ctor True out) = fst (vertex_data_ctor False out)"
  by (simp add: jacobi_update_def Let_def vertex_data_ctor_def out_edge_loop_print_line
      put_vertex_data_print_line schedule_print_line print_line_erase print_line_simps
      put_vertex_data_simps schedule_simps)

text \<open>
  Claim C10. The constructor gives \<open>y = 0\<close>, \<open>Aii = 1\<close>, \<open>pred_x = 0\<close>, \<open>real_x = 0\<close> and
  \<open>prev_x\<close> the maximal value of \<^verbatim>\<open>real_type\<close>, whatever the debug flag. The default diagonal
  is not zero, so an invocation on any vertex that still has it passes the assertion and
  returns.
\<close>

theorem default_vertex_data:
  "fst (vertex_data_ctor debug out)
     = \<lparr>y = 0, Aii = 1, pred_x = 0, real_x = 0, prev_x = real_type_max\<rparr>
   \<and> Aii (fst (vertex_data_ctor debug out)) \<noteq> 0
   \<and> (\<exists>c'. jacobi_update debug'
          (put_vertex_data (vd\<lparr>Aii := Aii (fst (vertex_data_ctor debug out))\<rparr>) context) = Inr c')"
  by (simp add: vertex_data_ctor_def jacobi_update_returns put_vertex_data_simps)








text \<open>
  Claim C5. On a system without off-diagonal entries one sweep is to give
  \<open>x\<^sub>i = y\<^sub>i / A\<^sub>i\<^sub>i\<close>. On \<open>diagonal_context\<close> (\<open>2 x\<^sub>0 = 2\<close>, \<open>3 x\<^sub>1 = 6\<close>, estimates 0 as
  loaded) that is \<open>1\<close> and \<open>2\<close>; the sweep leaves both estimates at \<open>0\<close>, since each update
  divides the old estimate, not \<open>y\<close>, by the diagonal.
\<close>

theorem diagonal_sweep_stays_at_zero:
  "map_sum id (\<lambda>c. map (\<lambda>v. pred_x (g_vertex_data c v)) [0, 1])
       (sweep False [0, 1] diagonal_context) = Inr [0, 0]
   \<and> map (\<lambda>v. y (g_vertex_data diagonal_context v) / Aii (g_vertex_data diagonal_context v)) [0, 1]
       = [1, 2]"
  by (simp add: model_defs jacobi_update_def Let_def)

subsection \<open>The accumulator\<close>

lemma accumulator_plus_eq_assoc:
  "accumulator_plus_eq (accumulator_plus_eq a b) c = accumulator_plus_eq a (accumulator_plus_eq b c)"
  by (simp add: accumulator_plus_eq_def)

lemma accumulator_plus_eq_commute: "accumulator_plus_eq a b = accumulator_plus_eq b a"
  by (simp add: accumulator_plus_eq_def)

lemma foldl_accumulator_apply:
  "real_norm (foldl (\<lambda>acc v. accumulator_apply acc (context\<lparr>vertex_id := v\<rparr>)) a vs)
     = real_norm a + spec_absolute_error_norm context vs"
  "relative_norm (foldl (\<lambda>acc v. accumulator_apply acc (context\<lparr>vertex_id := v\<rparr>)) a vs)
     = relative_norm a + spec_relative_error_norm context vs"
  by (induction vs arbitrary: a;
      simp add: accumulator_apply_def cur_vertex_data_def Let_def
        spec_absolute_error_norm_def spec_relative_error_norm_def)+

text \<open>One accumulator, folded over a group: the sum of the group on top of the maximum.\<close>

lemma fold_vertices_norms:
  "real_norm (fold_vertices context vs) = real_type_max + spec_absolute_error_norm context vs"
  "relative_norm (fold_vertices context vs) = real_type_max + spec_relative_error_norm context vs"
  by (simp_all add: fold_vertices_def foldl_accumulator_apply accumulator_ctor_def)

lemma foldl_accumulator_plus_eq:
  "real_norm (foldl accumulator_plus_eq a bs) = real_norm a + (\<Sum>b\<leftarrow>bs. real_norm b)"
  "relative_norm (foldl accumulator_plus_eq a bs) = relative_norm a + (\<Sum>b\<leftarrow>bs. relative_norm b)"
  by (induction bs arbitrary: a; simp add: accumulator_plus_eq_def)+

lemma spec_norms_append:
  "spec_absolute_error_norm context (vs @ ws)
     = spec_absolute_error_norm context vs + spec_absolute_error_norm context ws"
  "spec_relative_error_norm context (vs @ ws)
     = spec_relative_error_norm context vs + spec_relative_error_norm context ws"
  by (simp_all add: spec_absolute_error_norm_def spec_relative_error_norm_def)

lemma sum_list_fold_vertices:
  "(\<Sum>g\<leftarrow>gs. real_norm (fold_vertices context g))
     = real (length gs) * real_type_max + spec_absolute_error_norm context (concat gs)"
  "(\<Sum>g\<leftarrow>gs. relative_norm (fold_vertices context g))
     = real (length gs) * real_type_max + spec_relative_error_norm context (concat gs)"
proof (induction gs)
  case Nil
  show "(\<Sum>g\<leftarrow>[]. real_norm (fold_vertices context g))
     = real (length []) * real_type_max + spec_absolute_error_norm context (concat [])"
    by (simp add: spec_absolute_error_norm_def)
  show "(\<Sum>g\<leftarrow>[]. relative_norm (fold_vertices context g))
     = real (length []) * real_type_max + spec_relative_error_norm context (concat [])"
    by (simp add: spec_relative_error_norm_def)
next
  case (Cons g gs)
  show "(\<Sum>g\<leftarrow>g # gs. real_norm (fold_vertices context g))
     = real (length (g # gs)) * real_type_max + spec_absolute_error_norm context (concat (g # gs))"
    using Cons.IH(1) by (simp add: fold_vertices_norms spec_norms_append algebra_simps)
  show "(\<Sum>g\<leftarrow>g # gs. relative_norm (fold_vertices context g))
     = real (length (g # gs)) * real_type_max + spec_relative_error_norm context (concat (g # gs))"
    using Cons.IH(2) by (simp add: fold_vertices_norms spec_norms_append algebra_simps)
qed

text \<open>
  A pass with \<open>n\<close> groups: every accumulator starts at the maximum, so the totals are the
  sums over all vertices plus \<open>n\<close> times the maximum.
\<close>

lemma accumulation_pass_norms:
  "real_norm (accumulation_pass context (g # gs))
     = real (Suc (length gs)) * real_type_max + spec_absolute_error_norm context (concat (g # gs))"
  "relative_norm (accumulation_pass context (g # gs))
     = real (Suc (length gs)) * real_type_max + spec_relative_error_norm context (concat (g # gs))"
proof -
  have "real_norm (accumulation_pass context (g # gs))
      = real_norm (fold_vertices context g) + (\<Sum>h\<leftarrow>gs. real_norm (fold_vertices context h))"
    by (simp add: foldl_accumulator_plus_eq comp_def)
  also have "\<dots> = (real_type_max + spec_absolute_error_norm context g)
      + (real (length gs) * real_type_max + spec_absolute_error_norm context (concat gs))"
    by (simp only: sum_list_fold_vertices) (simp only: fold_vertices_norms)
  finally show "real_norm (accumulation_pass context (g # gs))
     = real (Suc (length gs)) * real_type_max + spec_absolute_error_norm context (concat (g # gs))"
    by (simp add: spec_norms_append algebra_simps)
  have "relative_norm (accumulation_pass context (g # gs))
      = relative_norm (fold_vertices context g) + (\<Sum>h\<leftarrow>gs. relative_norm (fold_vertices context h))"
    by (simp add: foldl_accumulator_plus_eq comp_def)
  also have "\<dots> = (real_type_max + spec_relative_error_norm context g)
      + (real (length gs) * real_type_max + spec_relative_error_norm context (concat gs))"
    by (simp only: sum_list_fold_vertices) (simp only: fold_vertices_norms)
  finally show "relative_norm (accumulation_pass context (g # gs))
     = real (Suc (length gs)) * real_type_max + spec_relative_error_norm context (concat (g # gs))"
    by (simp add: spec_norms_append algebra_simps)
qed

text \<open>
  Claim C2. After a pass the norms are to be the sums over all vertices of
  \<open>(estimate - reference)\<^sup>2\<close> and of \<open>(estimate - previous_estimate)\<^sup>2\<close>. On the one vertex
  \<open>1\<close> of \<open>coupled_context\<close> (estimate 1, reference 0, previous estimate 0) both sums are
  \<open>1\<close>; the pass with a single accumulator gives the maximum of \<^verbatim>\<open>real_type\<close> plus \<open>1\<close> for
  both, since the constructor starts both norms at that maximum, not at zero.
\<close>

theorem accumulation_pass_starts_from_max:
  "spec_absolute_error_norm coupled_context [1] = 1 \<and>
   spec_relative_error_norm coupled_context [1] = 1 \<and>
   real_norm (accumulation_pass coupled_context [[1]]) = real_type_max + 1 \<and>
   relative_norm (accumulation_pass coupled_context [[1]]) = real_type_max + 1 \<and>
   real_norm (accumulation_pass coupled_context [[1]]) \<noteq> spec_absolute_error_norm coupled_context [1] \<and>
   relative_norm (accumulation_pass coupled_context [[1]]) \<noteq> spec_relative_error_norm coupled_context [1]"
  using real_type_max_pos
  by (simp add: fold_vertices_def accumulator_apply_def accumulator_ctor_def
      spec_absolute_error_norm_def spec_relative_error_norm_def model_defs)

text \<open>
  Claim C6. Combining per-group accumulators is to give the totals of a single pass,
  for every partition and every order. \<^verbatim>\<open>operator+=\<close> itself is associative and commutative
  (lemmas \<open>accumulator_plus_eq_assoc\<close> and \<open>accumulator_plus_eq_commute\<close>), but every group's
  accumulator starts at the maximum of \<^verbatim>\<open>real_type\<close>: on the two vertices of
  \<open>coupled_context\<close> the groups \<open>[0]\<close> and \<open>[1]\<close> combine to twice the maximum plus \<open>1\<close>, the
  single pass over \<open>[0, 1]\<close> gives the maximum plus \<open>1\<close>.
\<close>

theorem accumulation_pass_depends_on_grouping:
  "real_norm (accumulation_pass coupled_context [[0], [1]]) = 2 * real_type_max + 1 \<and>
   real_norm (accumulation_pass coupled_context [[0, 1]]) = real_type_max + 1 \<and>
   real_norm (accumulation_pass coupled_context [[0], [1]])
     \<noteq> real_norm (accumulation_pass coupled_context [[0, 1]]) \<and>
   relative_norm (accumulation_pass coupled_context [[0], [1]])
     \<noteq> relative_norm (accumulation_pass coupled_context [[0, 1]])"
  using real_type_max_pos
  by (simp add: fold_vertices_def accumulator_apply_def accumulator_ctor_def
      accumulator_plus_eq_def model_defs)

text \<open>
  Claim C3. With a threshold configured, \<^verbatim>\<open>finalize\<close> returns; afterwards the global table
  holds the accumulator's two norms under \<^verbatim>\<open>REAL_NORM\<close> and \<^verbatim>\<open>RELATIVE_NORM\<close>, both norms
  have been written to the output, and the termination signal is set if and only if it was
  set before or \<open>real_norm\<close> is strictly below the threshold.
\<close>

theorem finalize_publishes_and_terminates:
  assumes "globals context ''THRESHOLD'' = Some threshold"
  shows "\<exists>c'. finalize acc context = Inr c' \<and>
     globals c' ''REAL_NORM'' = Some (real_norm acc) \<and>
     globals c' ''RELATIVE_NORM'' = Some (relative_norm acc) \<and>
     cout c' = cout context @ [Real_Norm_line (real_norm acc), Relative_Norm_line (relative_norm acc)] \<and>
     terminated c' = (terminated context \<or> real_norm acc < threshold)"
  using assms
  by (simp add: finalize_def Let_def set_global_def get_global_def print_line_def terminate_def)

theorem finalize_publishes_and_terminates_witness:
  "globals configured_context ''THRESHOLD'' = Some (1 / 100000) \<and>
   (\<exists>c'. finalize \<lparr>real_norm = 0, relative_norm = 4\<rparr> configured_context = Inr c' \<and>
      globals c' ''REAL_NORM'' = Some 0 \<and> globals c' ''RELATIVE_NORM'' = Some 4 \<and> terminated c') \<and>
   (\<exists>c'. finalize \<lparr>real_norm = 1, relative_norm = 4\<rparr> configured_context = Inr c' \<and>
      globals c' ''REAL_NORM'' = Some 1 \<and> globals c' ''RELATIVE_NORM'' = Some 4 \<and> \<not> terminated c')"
proof -
  have conf: "globals configured_context ''THRESHOLD'' = Some (1 / 100000)"
    by (simp add: model_defs)
  have not_yet: "\<not> terminated configured_context"
    by (simp add: model_defs)
  from finalize_publishes_and_terminates [OF conf, of "\<lparr>real_norm = 0, relative_norm = 4\<rparr>"]
  have below: "\<exists>c'. finalize \<lparr>real_norm = 0, relative_norm = 4\<rparr> configured_context = Inr c' \<and>
      globals c' ''REAL_NORM'' = Some 0 \<and> globals c' ''RELATIVE_NORM'' = Some 4 \<and> terminated c'"
    by auto
  from finalize_publishes_and_terminates [OF conf, of "\<lparr>real_norm = 1, relative_norm = 4\<rparr>"] not_yet
  have above: "\<exists>c'. finalize \<lparr>real_norm = 1, relative_norm = 4\<rparr> configured_context = Inr c' \<and>
      globals c' ''REAL_NORM'' = Some 1 \<and> globals c' ''RELATIVE_NORM'' = Some 4 \<and> \<not> terminated c'"
    by auto
  from conf below above show ?thesis
    by blast
qed

end
